theory Spec2Isabelle
  imports Main "HOL-Library.Sublist" "HOL-Library.AList"
begin

section \<open>Python values, errors and the runtime environment\<close>

text \<open>
  The module \<^verbatim>\<open>litestar/logging/config.py\<close> is embedded function by function.
  Exceptions are values of \<open>error\<close>; a function that may raise returns \<open>error + 'a\<close>
  with \<open>Inl\<close> for the raised exception. Python strings and \<^verbatim>\<open>bytes\<close> are \<open>string\<close>
  (a list of 8-bit characters); a \<^verbatim>\<open>dict\<close> is an association list in insertion order.
\<close>

datatype error =
    IndexError string
  | KeyError string
  | ImproperlyConfiguredException string
  | MissingDependencyException string
  | SerializationException string
  | BackendError string

definition nl :: char where
  "nl = CHR 0x0A"

text \<open>\<^verbatim>\<open>xs[i:]\<close>: a negative start counts from the end and is clamped at the front.\<close>

definition py_slice_from :: "int \<Rightarrow> 'a list \<Rightarrow> 'a list" where
  "py_slice_from i xs =
     (if i < 0 then drop (nat (int (length xs) + i)) xs else drop (nat i) xs)"

text \<open>\<^verbatim>\<open>d[k]\<close> on a mapping: \<^verbatim>\<open>KeyError\<close> when the key is missing.\<close>

definition py_getitem :: "(string \<rightharpoonup> 'v) \<Rightarrow> string \<Rightarrow> error + 'v" where
  "py_getitem d k = (case d k of None \<Rightarrow> Inl (KeyError k) | Some v \<Rightarrow> Inr v)"

section \<open>The placeholder accessor\<close>

text \<open>
  \<^verbatim>\<open>get_logger_placeholder(_: str | None = None) -> NoReturn\<close>: the argument is ignored
  and the body is a single \<^verbatim>\<open>raise\<close>.
\<close>

definition get_logger_placeholder :: "string option \<Rightarrow> error + 'logger" where
  "get_logger_placeholder name =
     Inl (ImproperlyConfiguredException
       ''cannot call '.get_logger' without passing 'logging_config' to the Litestar constructor first'')"

section \<open>The exception logging handler\<close>

text \<open>
  One call \<^verbatim>\<open>logger.exception(msg, *args, **kwargs)\<close>. The logger is a collaborator
  outside this module: it is a state \<open>'l\<close> together with its \<^verbatim>\<open>exception\<close> method,
  which may itself raise.
\<close>

datatype log_call = LogException (msg: string) (args: "string list") (kwargs: "(string \<times> string) list")

type_synonym 'l logger_exception = "log_call \<Rightarrow> 'l \<Rightarrow> error + 'l"

text \<open>A logger that records every call, used to observe what the handler emits.\<close>

definition recording_logger :: "(log_call list) logger_exception" where
  "recording_logger c l = Inr (l @ [c])"

text \<open>A logger whose \<^verbatim>\<open>exception\<close> method raises.\<close>

definition failing_logger :: "(log_call list) logger_exception" where
  "failing_logger c l = Inl (BackendError ''emit failed'')"

text \<open>
  \<^verbatim>\<open>_default_exception_logging_handler(logger, scope, tb)\<close>, the closure returned by
  \<^verbatim>\<open>_default_exception_logging_handler_factory(is_struct_logger, traceback_line_limit)\<close>.
  \<^verbatim>\<open>tb.pop(0)\<close> raises \<^verbatim>\<open>IndexError\<close> on an empty list and shortens the caller's list
  in place, so the result carries the list as left behind, next to the logger's new state.
  Arguments are evaluated left to right: in the structured branch the two scope lookups
  come before the join, in the other branch the join comes first.
\<close>

definition default_exception_logging_handler ::
  "bool \<Rightarrow> int \<Rightarrow> 'l logger_exception \<Rightarrow> 'l \<Rightarrow> (string \<rightharpoonup> string) \<Rightarrow> string list
     \<Rightarrow> error + (string list \<times> 'l)" where
  "default_exception_logging_handler is_struct_logger traceback_line_limit logger_exception l scope tb =
     (case tb of
        [] \<Rightarrow> Inl (IndexError ''pop from empty list'')
      | first_line # tb' \<Rightarrow>
          if is_struct_logger then
            (case py_getitem scope ''type'' of Inl e \<Rightarrow> Inl e | Inr ty \<Rightarrow>
            (case py_getitem scope ''path'' of Inl e \<Rightarrow> Inl e | Inr path \<Rightarrow>
            (case logger_exception
                    (LogException ''Uncaught Exception'' []
                       [(''connection_type'', ty), (''path'', path),
                        (''traceback'', concat (py_slice_from (- traceback_line_limit) tb'))]) l of
               Inl e \<Rightarrow> Inl e
             | Inr l' \<Rightarrow> Inr (tb', l'))))
          else
            (let stack_trace = first_line @ concat (py_slice_from (- traceback_line_limit) tb') in
             (case py_getitem scope ''type'' of Inl e \<Rightarrow> Inl e | Inr ty \<Rightarrow>
             (case py_getitem scope ''path'' of Inl e \<Rightarrow> Inl e | Inr path \<Rightarrow>
             (case logger_exception
                    (LogException
                       (''exception raised on %s connection to route %s'' @ [nl, nl] @ ''%s'')
                       [ty, path, stack_trace] []) l of
               Inl e \<Rightarrow> Inl e
             | Inr l' \<Rightarrow> Inr (tb', l'))))))"

text \<open>
  The handler as a value stored in a configuration: either the closure built by the
  factory (its two captured variables) or a callable supplied by the application,
  which this module never inspects.
\<close>

datatype exception_logging_handler_value =
    DefaultHandler (captured_is_struct_logger: bool) (captured_traceback_line_limit: int)
  | CustomHandler string

definition default_exception_logging_handler_factory :: "bool \<Rightarrow> int \<Rightarrow> exception_logging_handler_value" where
  "default_exception_logging_handler_factory is_struct_logger traceback_line_limit =
     DefaultHandler is_struct_logger traceback_line_limit"

text \<open>
  Calling a stored handler: a closure built by the factory runs the body above with its
  captured values; what an application's own callable does is not part of this module.
\<close>

fun call_handler ::
  "exception_logging_handler_value \<Rightarrow> 'l logger_exception \<Rightarrow> 'l \<Rightarrow> (string \<rightharpoonup> string)
     \<Rightarrow> string list \<Rightarrow> (error + (string list \<times> 'l)) option" where
  "call_handler (DefaultHandler s n) logger_exception l scope tb =
     Some (default_exception_logging_handler s n logger_exception l scope tb)"
| "call_handler (CustomHandler _) logger_exception l scope tb = None"

text \<open>A traceback of 25 lines and a connection scope, for concrete runs.\<close>

definition traceback_25 :: "string list" where
  "traceback_25 =
     [''l00'', ''l01'', ''l02'', ''l03'', ''l04'', ''l05'', ''l06'', ''l07'', ''l08'', ''l09'',
      ''l10'', ''l11'', ''l12'', ''l13'', ''l14'', ''l15'', ''l16'', ''l17'', ''l18'', ''l19'',
      ''l20'', ''l21'', ''l22'', ''l23'', ''l24'']"

definition http_scope :: "string \<rightharpoonup> string" where
  "http_scope = [''type'' \<mapsto> ''http'', ''path'' \<mapsto> ''/items'']"

section \<open>The event filter\<close>

text \<open>
  \<^verbatim>\<open>event_dict.pop(key, None)\<close>: the entry is removed when present, nothing happens
  otherwise. \<^verbatim>\<open>d[k] = v\<close> and \<^verbatim>\<open>k in d\<close> are written with the same association lists.
\<close>

datatype serializer = default_json_serializer | stdlib_json_serializer

datatype exception_formatter =
  RichTracebackFormatter (max_frames: nat) (show_locals: bool) (width: nat)

datatype processor =
    merge_contextvars
  | add_log_level
  | format_exc_info
  | TimeStamper string
  | JSONRenderer serializer
  | ConsoleRenderer bool exception_formatter
  | stdlib_add_log_level
  | ExtraAdder
  | StructlogEventFilter (filter_keys: "string list")
  | remove_processors_meta
  | CustomProcessor string

datatype pyval =
    PNone
  | PBool bool
  | PInt int
  | PStr string
  | PList "pyval list"
  | PDict "(string \<times> pyval) list"
  | PClass string
  | PProc processor
  | PHandler exception_logging_handler_value

type_synonym pydict = "(string \<times> pyval) list"

definition dict_contains :: "string \<Rightarrow> (string \<times> 'v) list \<Rightarrow> bool" where
  "dict_contains k d = (k \<in> fst ` set d)"

definition dict_setitem :: "string \<Rightarrow> 'v \<Rightarrow> (string \<times> 'v) list \<Rightarrow> (string \<times> 'v) list" where
  "dict_setitem k v d = AList.update k v d"

definition dict_pop_default :: "string \<Rightarrow> (string \<times> 'v) list \<Rightarrow> (string \<times> 'v) list" where
  "dict_pop_default k d = AList.delete k d"

text \<open>\<^verbatim>\<open>d.pop(k)\<close> with no default raises \<^verbatim>\<open>KeyError\<close> on a missing key.\<close>

definition dict_pop :: "string \<Rightarrow> (string \<times> 'v) list \<Rightarrow> error + (string \<times> 'v) list" where
  "dict_pop k d = (if dict_contains k d then Inr (AList.delete k d) else Inl (KeyError k))"

text \<open>
  \<^verbatim>\<open>StructlogEventFilter.__call__(_, __, event_dict)\<close>: the loop over \<^verbatim>\<open>self.filter_keys\<close>
  pops each key in turn; the dictionary is changed in place and returned.
\<close>

definition StructlogEventFilter_call :: "string list \<Rightarrow> pydict \<Rightarrow> pydict" where
  "StructlogEventFilter_call keys event_dict =
     fold (\<lambda>key d. dict_pop_default key d) keys event_dict"

section \<open>The runtime environment and the default tables\<close>

text \<open>
  What the module asks of the interpreter it runs in: whether \<^verbatim>\<open>find_spec("picologging")\<close>
  finds a module, whether each guarded import succeeds, whether \<^verbatim>\<open>sys.stderr\<close> is a
  terminal, and whether \<^verbatim>\<open>sys.version_info >= (3, 12, 0)\<close>.
\<close>

record environment =
  find_spec_picologging :: bool
  import_picologging :: bool
  import_structlog :: bool
  import_RichTracebackFormatter :: bool
  stderr_isatty :: bool
  version_at_least_3_12 :: bool

definition default_handlers :: "environment \<Rightarrow> (string \<times> pydict) list" where
  "default_handlers env =
     [(''console'',
         [(''class'', PStr ''logging.StreamHandler''),
          (''level'', PStr ''DEBUG''),
          (''formatter'', PStr ''standard'')]),
      (''queue_listener'',
         [(''class'', PStr ''litestar.logging.standard.QueueListenerHandler''),
          (''level'', PStr ''DEBUG''),
          (''formatter'', PStr ''standard'')]
         @ (if version_at_least_3_12 env then [(''handlers'', PList [PStr ''console''])] else []))]"

definition default_picologging_handlers :: "(string \<times> pydict) list" where
  "default_picologging_handlers =
     [(''console'',
         [(''class'', PStr ''picologging.StreamHandler''),
          (''level'', PStr ''DEBUG''),
          (''formatter'', PStr ''standard'')]),
      (''queue_listener'',
         [(''class'', PStr ''litestar.logging.picologging.QueueListenerHandler''),
          (''level'', PStr ''DEBUG''),
          (''formatter'', PStr ''standard'')])]"

definition get_default_handlers :: "environment \<Rightarrow> (string \<times> pydict) list" where
  "get_default_handlers env =
     (if find_spec_picologging env then default_picologging_handlers else default_handlers env)"

section \<open>The processor pipelines\<close>

text \<open>
  Both builders run inside \<^verbatim>\<open>try: ... except ImportError: return []\<close>, with the two
  imports \<^verbatim>\<open>import structlog\<close> and \<^verbatim>\<open>from structlog.dev import RichTracebackFormatter\<close>
  at the top of the block.
\<close>

definition default_structlog_processors :: "environment \<Rightarrow> bool \<Rightarrow> processor list" where
  "default_structlog_processors env as_json =
     (if import_structlog env \<and> import_RichTracebackFormatter env then
        (if as_json then
           [merge_contextvars,
            add_log_level,
            format_exc_info,
            TimeStamper ''iso'',
            JSONRenderer default_json_serializer]
         else
           [merge_contextvars,
            add_log_level,
            TimeStamper ''iso'',
            ConsoleRenderer True (RichTracebackFormatter 1 False 80)])
      else [])"

definition default_structlog_standard_lib_processors :: "environment \<Rightarrow> bool \<Rightarrow> processor list" where
  "default_structlog_standard_lib_processors env as_json =
     (if import_structlog env \<and> import_RichTracebackFormatter env then
        (if as_json then
           [TimeStamper ''iso'',
            stdlib_add_log_level,
            ExtraAdder,
            StructlogEventFilter [''color_message''],
            remove_processors_meta,
            JSONRenderer stdlib_json_serializer]
         else
           [TimeStamper ''iso'',
            stdlib_add_log_level,
            ExtraAdder,
            StructlogEventFilter [''color_message''],
            remove_processors_meta,
            ConsoleRenderer True (RichTracebackFormatter 1 False 80)])
      else [])"

datatype logger_factory_value = BytesLoggerFactory | WriteLoggerFactory | CustomLoggerFactory string

definition default_logger_factory :: "environment \<Rightarrow> bool \<Rightarrow> logger_factory_value option" where
  "default_logger_factory env as_json =
     (if import_structlog env then
        (if as_json then Some BytesLoggerFactory else Some WriteLoggerFactory)
      else None)"

section \<open>The configuration classes\<close>

datatype log_exceptions_literal = Always | Debug | Never

text \<open>The three attributes that \<^verbatim>\<open>BaseLoggingConfig\<close> declares for both configurations.\<close>

record BaseLoggingConfig =
  log_exceptions :: log_exceptions_literal
  traceback_line_limit :: int
  exception_logging_handler :: "exception_logging_handler_value option"

record LoggingConfig = BaseLoggingConfig +
  version :: int
  incremental :: bool
  disable_existing_loggers :: bool
  filters :: "(string \<times> pydict) list option"
  propagate :: bool
  formatters :: "(string \<times> pydict) list"
  handlers :: "(string \<times> pydict) list"
  loggers :: "(string \<times> pydict) list"
  root :: pydict
  configure_root_logger :: bool

text \<open>
  The field values the generated \<^verbatim>\<open>__init__\<close> assigns when no argument is passed. A
  construction with arguments is this record with the passed fields replaced;
  \<^verbatim>\<open>__init__\<close> then calls \<^verbatim>\<open>__post_init__\<close>.
\<close>

definition litestar_logger_default :: pydict where
  "litestar_logger_default =
     [(''level'', PStr ''INFO''),
      (''handlers'', PList [PStr ''queue_listener'']),
      (''propagate'', PBool False)]"

definition LoggingConfig_defaults :: "environment \<Rightarrow> LoggingConfig" where
  "LoggingConfig_defaults env =
     \<lparr> log_exceptions = Debug,
       traceback_line_limit = 20,
       exception_logging_handler = None,
       version = 1,
       incremental = False,
       disable_existing_loggers = False,
       filters = None,
       propagate = True,
       formatters =
         [(''standard'',
            [(''format'',
              PStr ''%(levelname)s - %(asctime)s - %(name)s - %(module)s - %(message)s'')])],
       handlers = get_default_handlers env,
       loggers = [(''litestar'', litestar_logger_default)],
       root = [(''handlers'', PList [PStr ''queue_listener'']), (''level'', PStr ''INFO'')],
       configure_root_logger = True \<rparr>"

text \<open>
  \<^verbatim>\<open>LoggingConfig.__post_init__\<close>: three guarded assignments, in this order. The lookup
  \<^verbatim>\<open>_get_default_handlers()["queue_listener"]\<close> reads a key that both default tables
  have (\<open>get_default_handlers_queue_listener\<close> below), so it is written with \<open>the\<close>.
\<close>

definition LoggingConfig_post_init :: "environment \<Rightarrow> LoggingConfig \<Rightarrow> LoggingConfig" where
  "LoggingConfig_post_init env self =
     (let self1 =
            (if \<not> dict_contains ''queue_listener'' (handlers self) then
               self\<lparr>handlers :=
                 dict_setitem ''queue_listener''
                   (the (map_of (get_default_handlers env) ''queue_listener'')) (handlers self)\<rparr>
             else self);
          self2 =
            (if \<not> dict_contains ''litestar'' (loggers self1) then
               self1\<lparr>loggers := dict_setitem ''litestar'' litestar_logger_default (loggers self1)\<rparr>
             else self1)
      in if log_exceptions self2 \<noteq> Never \<and> exception_logging_handler self2 = None then
           self2\<lparr>exception_logging_handler :=
             Some (default_exception_logging_handler_factory False (traceback_line_limit self2))\<rparr>
         else self2)"

text \<open>
  \<^verbatim>\<open>dataclasses.asdict(self)\<close>: one entry per dataclass field, in declaration order, the
  nested dictionaries copied.
\<close>

definition dict_of_dicts :: "(string \<times> pydict) list \<Rightarrow> pyval" where
  "dict_of_dicts d = PDict (map (\<lambda>(k, v). (k, PDict v)) d)"

definition log_exceptions_str :: "log_exceptions_literal \<Rightarrow> string" where
  "log_exceptions_str p = (case p of Always \<Rightarrow> ''always'' | Debug \<Rightarrow> ''debug'' | Never \<Rightarrow> ''never'')"

definition LoggingConfig_asdict :: "LoggingConfig \<Rightarrow> pydict" where
  "LoggingConfig_asdict self =
     [(''version'', PInt (version self)),
      (''incremental'', PBool (incremental self)),
      (''disable_existing_loggers'', PBool (disable_existing_loggers self)),
      (''filters'', (case filters self of None \<Rightarrow> PNone | Some f \<Rightarrow> dict_of_dicts f)),
      (''propagate'', PBool (propagate self)),
      (''formatters'', dict_of_dicts (formatters self)),
      (''handlers'', dict_of_dicts (handlers self)),
      (''loggers'', dict_of_dicts (loggers self)),
      (''root'', PDict (root self)),
      (''configure_root_logger'', PBool (configure_root_logger self)),
      (''log_exceptions'', PStr (log_exceptions_str (log_exceptions self))),
      (''traceback_line_limit'', PInt (traceback_line_limit self)),
      (''exception_logging_handler'',
         (case exception_logging_handler self of None \<Rightarrow> PNone | Some h \<Rightarrow> PHandler h))]"

text \<open>
  \<^verbatim>\<open>str(b)\<close> of a \<^verbatim>\<open>bytes\<close> value is its \<^verbatim>\<open>repr\<close>: the prefix \<^verbatim>\<open>b\<close>, a quote (double
  when the bytes hold a single quote and no double quote), and each byte printed as
  itself or escaped.
\<close>

definition backslash :: char where
  "backslash = CHR 0x5C"

definition hexdigit :: "nat \<Rightarrow> char" where
  "hexdigit n = ''0123456789abcdef'' ! (n mod 16)"

definition bytes_repr_char :: "char \<Rightarrow> char \<Rightarrow> string" where
  "bytes_repr_char quote c =
     (if c = quote \<or> c = backslash then [backslash, c]
      else if c = CHR 0x09 then [backslash, CHR ''t'']
      else if c = CHR 0x0A then [backslash, CHR ''n'']
      else if c = CHR 0x0D then [backslash, CHR ''r'']
      else if (of_char c :: nat) < 32 \<or> (of_char c :: nat) \<ge> 127 then
        [backslash, CHR ''x'', hexdigit (of_char c div 16), hexdigit (of_char c mod 16)]
      else [c])"

definition py_str_bytes :: "string \<Rightarrow> string" where
  "py_str_bytes bs =
     (let quote = (if CHR 0x27 \<in> set bs \<and> CHR 0x22 \<notin> set bs then CHR 0x22 else CHR 0x27)
      in ''b'' @ [quote] @ concat (map (bytes_repr_char quote) bs) @ [quote])"

text \<open>The module whose \<^verbatim>\<open>config.dictConfig\<close> and \<^verbatim>\<open>getLogger\<close> the configure step imports.\<close>

datatype dict_backend = Logging | Picologging

text \<open>
  \<^verbatim>\<open>LoggingConfig.configure\<close>. \<^verbatim>\<open>encode_json\<close> (from \<^verbatim>\<open>litestar.serialization\<close>) is a
  parameter: it returns the encoded bytes or raises. The call
  \<^verbatim>\<open>config.dictConfig(values)\<close> goes to the backend, outside this module; the result
  records which backend is called and the mapping it is called with.
\<close>

definition LoggingConfig_configure ::
  "(pyval \<Rightarrow> error + string) \<Rightarrow> environment \<Rightarrow> LoggingConfig \<Rightarrow> error + (dict_backend \<times> pydict)" where
  "LoggingConfig_configure encode_json env self =
     (case encode_json (dict_of_dicts (handlers self)) of
        Inl e \<Rightarrow> Inl e
      | Inr encoded \<Rightarrow>
         (case
            (if sublist ''picologging'' (py_str_bytes encoded) then
               (if import_picologging env then
                  Inr (Picologging,
                       [kv \<leftarrow> LoggingConfig_asdict self.
                          snd kv \<noteq> PNone \<and> fst kv \<notin> set [''incremental'', ''configure_root_logger'']])
                else Inl (MissingDependencyException ''picologging''))
             else
               Inr (Logging,
                    [kv \<leftarrow> LoggingConfig_asdict self.
                       snd kv \<noteq> PNone \<and> fst kv \<notin> set [''configure_root_logger'']]))
          of
            Inl e \<Rightarrow> Inl e
          | Inr (backend, values) \<Rightarrow>
              (if \<not> configure_root_logger self then
                 (case dict_pop ''root'' values of
                    Inl e \<Rightarrow> Inl e
                  | Inr values' \<Rightarrow> Inr (backend, values'))
               else Inr (backend, values))))"

text \<open>
  Modelled from the spec: \<^verbatim>\<open>encode_json\<close> is defined in \<^verbatim>\<open>litestar.serialization\<close>, which
  is not part of the source at hand; the specification names it a JSON encoder
  \<^verbatim>\<open>encode(value) -> bytes\<close>. This is a compact JSON encoder (no whitespace, entries in
  insertion order, raising on values that are not JSON data) with which the
  configure step can be run on concrete configurations.
\<close>

fun dec_digits :: "nat \<Rightarrow> string" where
  "dec_digits n =
     (if n < 10 then [hexdigit n] else dec_digits (n div 10) @ [hexdigit (n mod 10)])"

definition json_int :: "int \<Rightarrow> string" where
  "json_int i = (if i < 0 then ''-'' @ dec_digits (nat (- i)) else dec_digits (nat i))"

definition json_escape_char :: "char \<Rightarrow> string" where
  "json_escape_char c =
     (if c = CHR 0x22 then [backslash, CHR 0x22]
      else if c = backslash then [backslash, backslash]
      else if c = CHR 0x0A then [backslash, CHR ''n'']
      else if c = CHR 0x0D then [backslash, CHR ''r'']
      else if c = CHR 0x09 then [backslash, CHR ''t'']
      else if c = CHR 0x08 then [backslash, CHR ''b'']
      else if c = CHR 0x0C then [backslash, CHR ''f'']
      else if (of_char c :: nat) < 32 then
        [backslash, CHR ''u'', CHR ''0'', CHR ''0'', hexdigit (of_char c div 16), hexdigit (of_char c mod 16)]
      else [c])"

definition json_string :: "string \<Rightarrow> string" where
  "json_string s = [CHR 0x22] @ concat (map json_escape_char s) @ [CHR 0x22]"

fun json_value :: "pyval \<Rightarrow> error + string"
  and json_elems :: "pyval list \<Rightarrow> error + string"
  and json_items :: "(string \<times> pyval) list \<Rightarrow> error + string" where
  "json_value PNone = Inr ''null''"
| "json_value (PBool b) = Inr (if b then ''true'' else ''false'')"
| "json_value (PInt i) = Inr (json_int i)"
| "json_value (PStr s) = Inr (json_string s)"
| "json_value (PList xs) =
     (case json_elems xs of Inl e \<Rightarrow> Inl e | Inr r \<Rightarrow> Inr (''['' @ r @ '']''))"
| "json_value (PDict kvs) =
     (case json_items kvs of Inl e \<Rightarrow> Inl e | Inr r \<Rightarrow> Inr (''{'' @ r @ ''}''))"
| "json_value (PClass n) = Inl (SerializationException ''Unsupported type'')"
| "json_value (PProc p) = Inl (SerializationException ''Unsupported type'')"
| "json_value (PHandler h) = Inl (SerializationException ''Unsupported type'')"
| "json_elems [] = Inr []"
| "json_elems (x # xs) =
     (case json_value x of
        Inl e \<Rightarrow> Inl e
      | Inr r \<Rightarrow>
         (case json_elems xs of
            Inl e \<Rightarrow> Inl e
          | Inr rs \<Rightarrow> Inr (if xs = [] then r else r @ '','' @ rs)))"
| "json_items [] = Inr []"
| "json_items (kv # kvs) =
     (case json_value (snd kv) of
        Inl e \<Rightarrow> Inl e
      | Inr r \<Rightarrow>
         (case json_items kvs of
            Inl e \<Rightarrow> Inl e
          | Inr rs \<Rightarrow>
             Inr (if kvs = [] then json_string (fst kv) @ '':'' @ r
                  else json_string (fst kv) @ '':'' @ r @ '','' @ rs)))"

text \<open>\<^verbatim>\<open>StructLoggingConfig\<close> and its \<^verbatim>\<open>__post_init__\<close>.\<close>

record StructLoggingConfig = BaseLoggingConfig +
  processors :: "processor list option"
  standard_lib_logging_config :: "LoggingConfig option"
  wrapper_class :: "string option"
  context_class :: "pydict option"
  logger_factory :: "logger_factory_value option"
  cache_logger_on_first_use :: bool
  pretty_print_tty :: bool

definition StructLoggingConfig_defaults :: StructLoggingConfig where
  "StructLoggingConfig_defaults =
     \<lparr> log_exceptions = Debug,
       traceback_line_limit = 20,
       exception_logging_handler = None,
       processors = None,
       standard_lib_logging_config = None,
       wrapper_class = None,
       context_class = None,
       logger_factory = None,
       cache_logger_on_first_use = True,
       pretty_print_tty = True \<rparr>"

text \<open>
  The formatter table passed to \<^verbatim>\<open>LoggingConfig(formatters=...)\<close> when the wrapped
  configuration is built: the \<^verbatim>\<open>structlog.stdlib.ProcessorFormatter\<close> class under \<^verbatim>\<open>"()"\<close>
  and the bridge pipeline under \<^verbatim>\<open>"processors"\<close>.
\<close>

definition structlog_formatters :: "environment \<Rightarrow> bool \<Rightarrow> (string \<times> pydict) list" where
  "structlog_formatters env as_json =
     [(''standard'',
        [(''()'', PClass ''structlog.stdlib.ProcessorFormatter''),
         (''processors'',
            PList (map PProc (default_structlog_standard_lib_processors env as_json)))])]"

definition StructLoggingConfig_post_init :: "environment \<Rightarrow> StructLoggingConfig \<Rightarrow> StructLoggingConfig" where
  "StructLoggingConfig_post_init env self =
     (let as_json = (\<not> stderr_isatty env \<and> pretty_print_tty self);
          self1 =
            (if processors self = None then
               self\<lparr>processors := Some (default_structlog_processors env as_json)\<rparr>
             else self);
          self2 =
            (if logger_factory self1 = None then
               self1\<lparr>logger_factory := default_logger_factory env as_json\<rparr>
             else self1);
          self3 =
            (if log_exceptions self2 \<noteq> Never \<and> exception_logging_handler self2 = None then
               self2\<lparr>exception_logging_handler :=
                 Some (default_exception_logging_handler_factory True (traceback_line_limit self2))\<rparr>
             else self2)
      in if import_structlog env then
           (if standard_lib_logging_config self3 = None then
              self3\<lparr>standard_lib_logging_config :=
                Some (LoggingConfig_post_init env
                        ((LoggingConfig_defaults env)\<lparr>formatters := structlog_formatters env as_json\<rparr>))\<rparr>
            else self3)
         else
           self3\<lparr>standard_lib_logging_config :=
             Some (LoggingConfig_post_init env (LoggingConfig_defaults env))\<rparr>)"

section \<open>Concrete environments and configurations\<close>

text \<open>
  Two interpreters to run the definitions in: one with neither optional package
  installed, one with both; in each \<^verbatim>\<open>sys.stderr\<close> is not a terminal and the version
  is at least 3.12.
\<close>

definition env_plain :: environment where
  "env_plain =
     \<lparr> find_spec_picologging = False, import_picologging = False, import_structlog = False,
       import_RichTracebackFormatter = False, stderr_isatty = False, version_at_least_3_12 = True \<rparr>"

definition env_full :: environment where
  "env_full =
     \<lparr> find_spec_picologging = True, import_picologging = True, import_structlog = True,
       import_RichTracebackFormatter = True, stderr_isatty = False, version_at_least_3_12 = True \<rparr>"

text \<open>
  Configurations used in concrete runs: one whose only supplied handler writes to a
  file with \<open>picologging\<close> in its name, one with \<^verbatim>\<open>incremental=True\<close>, one with the
  root entry \<^verbatim>\<open>{"level": "WARNING", "handlers": ["queue_listener"]}\<close>, and one with
  \<^verbatim>\<open>configure_root_logger=False\<close> built where picologging is installed.
\<close>

definition file_handlers :: "(string \<times> pydict) list" where
  "file_handlers =
     [(''file'',
        [(''class'', PStr ''logging.FileHandler''),
         (''level'', PStr ''DEBUG''),
         (''formatter'', PStr ''standard''),
         (''filename'', PStr ''/var/log/picologging-migration.log'')])]"

definition file_config :: LoggingConfig where
  "file_config =
     LoggingConfig_post_init env_plain ((LoggingConfig_defaults env_plain)\<lparr>handlers := file_handlers\<rparr>)"

definition incremental_config :: LoggingConfig where
  "incremental_config =
     LoggingConfig_post_init env_plain ((LoggingConfig_defaults env_plain)\<lparr>incremental := True\<rparr>)"

definition warning_root :: pydict where
  "warning_root = [(''level'', PStr ''WARNING''), (''handlers'', PList [PStr ''queue_listener''])]"

definition warning_root_config :: LoggingConfig where
  "warning_root_config =
     LoggingConfig_post_init env_plain ((LoggingConfig_defaults env_plain)\<lparr>root := warning_root\<rparr>)"

definition no_root_config :: LoggingConfig where
  "no_root_config =
     LoggingConfig_post_init env_full
       ((LoggingConfig_defaults env_full)\<lparr>configure_root_logger := False\<rparr>)"

section \<open>Slicing and the handler\<close>

lemma py_slice_from_zero: "py_slice_from 0 xs = xs"
  by (simp add: py_slice_from_def)

lemma py_slice_from_neg:
  "0 < n \<Longrightarrow> py_slice_from (- n) xs = drop (length xs - nat n) xs"
  by (auto simp add: py_slice_from_def nat_diff_distrib' intro: arg_cong2[where f=drop])

lemma py_slice_tail_bound:
  "0 < n \<Longrightarrow> length (py_slice_from (- n) xs) \<le> nat n \<and> suffix (py_slice_from (- n) xs) xs"
  by (auto simp add: py_slice_from_neg suffix_drop)

lemma handler_struct_emits:
  assumes "scope ''type'' = Some ty" "scope ''path'' = Some path"
  shows "call_handler (default_exception_logging_handler_factory True n) recording_logger l scope
           (first_line # tb) =
     Some (Inr (tb, l @ [LogException ''Uncaught Exception'' []
        [(''connection_type'', ty), (''path'', path),
         (''traceback'', concat (py_slice_from (- n) tb))]]))"
  using assms
  by (simp add: default_exception_logging_handler_factory_def default_exception_logging_handler_def
      recording_logger_def py_getitem_def)

lemma handler_dict_emits:
  assumes "scope ''type'' = Some ty" "scope ''path'' = Some path"
  shows "call_handler (default_exception_logging_handler_factory False n) recording_logger l scope
           (first_line # tb) =
     Some (Inr (tb, l @ [LogException
        (''exception raised on %s connection to route %s'' @ [nl, nl] @ ''%s'')
        [ty, path, first_line @ concat (py_slice_from (- n) tb)] []]))"
  using assms
  by (simp add: default_exception_logging_handler_factory_def default_exception_logging_handler_def
      recording_logger_def py_getitem_def)

text \<open>
  With a positive limit both variants emit a suffix of the remaining lines that is at
  most \<open>n\<close> lines long.
\<close>

lemma positive_limit_emits_tail:
  assumes "0 < n" and "scope ''type'' = Some ty" and "scope ''path'' = Some path"
  shows "\<exists>ls. suffix ls tb \<and> length ls \<le> nat n
      \<and> call_handler (default_exception_logging_handler_factory True n) recording_logger [] scope
           (first_line # tb) =
          Some (Inr (tb, [LogException ''Uncaught Exception'' []
            [(''connection_type'', ty), (''path'', path), (''traceback'', concat ls)]]))
      \<and> call_handler (default_exception_logging_handler_factory False n) recording_logger [] scope
           (first_line # tb) =
          Some (Inr (tb, [LogException
            (''exception raised on %s connection to route %s'' @ [nl, nl] @ ''%s'')
            [ty, path, first_line @ concat ls] []]))"
proof -
  let ?ls = "py_slice_from (- n) tb"
  have "suffix ?ls tb" "length ?ls \<le> nat n"
    using py_slice_tail_bound [OF assms(1), of tb] by simp_all
  then show ?thesis
    using handler_struct_emits [OF assms(2,3), of n "[]" first_line tb]
      handler_dict_emits [OF assms(2,3), of n "[]" first_line tb]
    by (intro exI [of _ ?ls]) simp
qed

lemma positive_limits_on_25_lines:
  "call_handler (default_exception_logging_handler_factory True 1) recording_logger [] http_scope
      traceback_25 =
     Some (Inr (tl traceback_25,
       [LogException ''Uncaught Exception'' []
          [(''connection_type'', ''http''), (''path'', ''/items''), (''traceback'', ''l24'')]]))"
  "call_handler (default_exception_logging_handler_factory True 20) recording_logger [] http_scope
      traceback_25 =
     Some (Inr (tl traceback_25,
       [LogException ''Uncaught Exception'' []
          [(''connection_type'', ''http''), (''path'', ''/items''),
           (''traceback'', concat (drop 5 traceback_25))]]))"
  by (simp_all add: default_exception_logging_handler_factory_def
      default_exception_logging_handler_def recording_logger_def http_scope_def traceback_25_def
      py_getitem_def py_slice_from_def)

text \<open>
  Claim C1. For every limit \<open>N \<ge> 0\<close> and a traceback of more than \<open>N + 1\<close> lines, the
  built handler (structured and dict-based) drops the first line and emits at most \<open>N\<close>
  lines from the tail of the rest; for \<open>N = 0\<close> it emits no tail line. The code does so
  for every positive limit (\<open>positive_limit_emits_tail\<close>), but \<^verbatim>\<open>tb[-0:]\<close> is \<^verbatim>\<open>tb[0:]\<close>:
  with limit 0 and 25 lines, both variants emit all 24 remaining lines.
\<close>

theorem limit_zero_emits_whole_traceback:
  "call_handler (default_exception_logging_handler_factory True 0) recording_logger [] http_scope
      traceback_25 =
     Some (Inr (tl traceback_25,
       [LogException ''Uncaught Exception'' []
          [(''connection_type'', ''http''), (''path'', ''/items''),
           (''traceback'', concat (tl traceback_25))]]))
   \<and> call_handler (default_exception_logging_handler_factory False 0) recording_logger []
       http_scope traceback_25 =
     Some (Inr (tl traceback_25,
       [LogException (''exception raised on %s connection to route %s'' @ [nl, nl] @ ''%s'')
          [''http'', ''/items'', hd traceback_25 @ concat (tl traceback_25)] []]))
   \<and> length (tl traceback_25) = 24
   \<and> concat (tl traceback_25) \<noteq> []"
  by (simp add: default_exception_logging_handler_factory_def default_exception_logging_handler_def
      recording_logger_def http_scope_def traceback_25_def py_getitem_def py_slice_from_def)

text \<open>
  Claim C2. For every logger, scope and traceback list, the empty list included, the
  built handler returns normally. It does not: on an empty traceback \<^verbatim>\<open>tb.pop(0)\<close>
  raises \<^verbatim>\<open>IndexError\<close>, and nothing in the handler catches it.
\<close>

theorem handler_empty_traceback_raises:
  "call_handler (default_exception_logging_handler_factory True 20) recording_logger []
      http_scope [] =
     Some (Inl (IndexError ''pop from empty list''))"
  by (simp add: default_exception_logging_handler_factory_def default_exception_logging_handler_def)

text \<open>
  Claim C2, as the code has it: for every non-empty traceback, every scope that has
  the keys \<^verbatim>\<open>"type"\<close> and \<^verbatim>\<open>"path"\<close>, and every logger whose \<^verbatim>\<open>exception\<close> method returns,
  the built handler (structured or dict-based, any limit) returns normally.
\<close>

theorem handler_returns_on_nonempty:
  assumes "tb \<noteq> []"
    and "scope ''type'' \<noteq> None" and "scope ''path'' \<noteq> None"
    and "\<forall>c. \<exists>l'. logger_exception c l = Inr l'"
  shows "\<exists>r. call_handler (default_exception_logging_handler_factory is_struct n)
                logger_exception l scope tb = Some (Inr r)"
proof -
  from assms(1) obtain first_line rest where tb: "tb = first_line # rest"
    by (cases tb) auto
  from assms(2,3) obtain ty path where sc: "scope ''type'' = Some ty" "scope ''path'' = Some path"
    by auto
  show ?thesis
  proof (cases is_struct)
    case True
    obtain l' where "logger_exception (LogException ''Uncaught Exception'' []
          [(''connection_type'', ty), (''path'', path),
           (''traceback'', concat (py_slice_from (- n) rest))]) l = Inr l'"
      using assms(4) by blast
    then show ?thesis using True tb sc
      by (simp add: default_exception_logging_handler_factory_def
          default_exception_logging_handler_def py_getitem_def)
  next
    case False
    obtain l' where "logger_exception (LogException
          (''exception raised on %s connection to route %s'' @ [nl, nl] @ ''%s'')
          [ty, path, first_line @ concat (py_slice_from (- n) rest)] []) l = Inr l'"
      using assms(4) by blast
    then show ?thesis using False tb sc
      by (simp add: default_exception_logging_handler_factory_def
          default_exception_logging_handler_def py_getitem_def)
  qed
qed

theorem handler_returns_on_nonempty_witness:
  "[''only line''] \<noteq> [] \<and> http_scope ''type'' \<noteq> None \<and> http_scope ''path'' \<noteq> None
   \<and> (\<forall>c. \<exists>l'. recording_logger c [] = Inr l')
   \<and> (\<exists>r. call_handler (default_exception_logging_handler_factory False 20) recording_logger []
              http_scope [''only line''] = Some (Inr r))"
  using handler_returns_on_nonempty
    [where tb = "[''only line'']" and scope = http_scope and logger_exception = recording_logger
       and l = "[]" and is_struct = False and n = 20]
  by (simp add: http_scope_def recording_logger_def)

text \<open>The handler passes on what the logger or a missing scope key raises.\<close>

lemma handler_propagates_logger_error:
  "call_handler (default_exception_logging_handler_factory True 20) failing_logger []
      http_scope [''first'', ''second''] =
     Some (Inl (BackendError ''emit failed''))"
  by (simp add: default_exception_logging_handler_factory_def default_exception_logging_handler_def
      failing_logger_def http_scope_def py_getitem_def)

lemma handler_missing_scope_key:
  "call_handler (default_exception_logging_handler_factory False 20) recording_logger []
      Map.empty [''first'', ''second''] =
     Some (Inl (KeyError ''type''))"
  by (simp add: default_exception_logging_handler_factory_def default_exception_logging_handler_def
      py_getitem_def)

section \<open>The placeholder accessor\<close>

text \<open>
  Claim C9. For every logger name, none included, the placeholder accessor raises
  \<^verbatim>\<open>ImproperlyConfiguredException\<close> with a message naming the missing setup step, and
  never returns a logger.
\<close>

theorem placeholder_always_raises:
  "get_logger_placeholder name =
     Inl (ImproperlyConfiguredException
       ''cannot call '.get_logger' without passing 'logging_config' to the Litestar constructor first'')
   \<and> (\<forall>logger. get_logger_placeholder name \<noteq> Inr logger)"
  by (simp add: get_logger_placeholder_def)

section \<open>The event filter\<close>

lemma dict_pop_default_filter:
  "dict_pop_default key d = [kv \<leftarrow> d. fst kv \<noteq> key]"
  by (induction d) (auto simp add: dict_pop_default_def)

lemma StructlogEventFilter_call_filter:
  "StructlogEventFilter_call keys event_dict = [kv \<leftarrow> event_dict. fst kv \<notin> set keys]"
proof (induction keys arbitrary: event_dict)
  case Nil
  show ?case by (simp add: StructlogEventFilter_call_def)
next
  case (Cons key keys)
  have "StructlogEventFilter_call (key # keys) event_dict =
        StructlogEventFilter_call keys (dict_pop_default key event_dict)"
    by (simp add: StructlogEventFilter_call_def)
  also have "\<dots> = [kv \<leftarrow> dict_pop_default key event_dict. fst kv \<notin> set keys]"
    by (rule Cons.IH)
  also have "\<dots> = [kv \<leftarrow> event_dict. fst kv \<notin> set (key # keys)]"
    by (auto simp add: dict_pop_default_filter intro: filter_cong)
  finally show ?case .
qed

lemma StructlogEventFilter_call_idem:
  "StructlogEventFilter_call keys (StructlogEventFilter_call keys event_dict) =
     StructlogEventFilter_call keys event_dict"
  by (simp add: StructlogEventFilter_call_filter)

text \<open>
  Claim C8. The event filter with keys \<^verbatim>\<open>["color_message"]\<close> removes exactly that key
  from any event map and leaves every other entry as it was, in its place; on
  \<^verbatim>\<open>{"color_message": "x", "event": "y"}\<close> it yields \<^verbatim>\<open>{"event": "y"}\<close>; applying it twice
  gives what applying it once gives.
\<close>

theorem event_filter_color_message:
  "StructlogEventFilter_call [''color_message''] event_dict =
     [kv \<leftarrow> event_dict. fst kv \<noteq> ''color_message'']
   \<and> map_of (StructlogEventFilter_call [''color_message''] event_dict) =
       (map_of event_dict)(''color_message'' := None)
   \<and> StructlogEventFilter_call [''color_message'']
       [(''color_message'', PStr ''x''), (''event'', PStr ''y'')] = [(''event'', PStr ''y'')]
   \<and> StructlogEventFilter_call [''color_message'']
       (StructlogEventFilter_call [''color_message''] event_dict) =
      StructlogEventFilter_call [''color_message''] event_dict"
proof -
  have f: "\<And>d. StructlogEventFilter_call [''color_message''] d =
             [kv \<leftarrow> d. fst kv \<noteq> ''color_message'']"
    by (simp add: StructlogEventFilter_call_filter)
  have m: "map_of (dict_pop_default ''color_message'' event_dict) =
        (map_of event_dict)(''color_message'' := None)"
    by (simp add: dict_pop_default_def AList.delete_conv')
  show ?thesis
    using m by (simp add: f dict_pop_default_filter)
qed

section \<open>The processor pipelines\<close>

text \<open>
  Claim C7. When the structured backend can be imported, both builders return, for
  \<^verbatim>\<open>as_json = True\<close>, a non-empty pipeline whose last step is the JSON renderer and, for
  \<^verbatim>\<open>as_json = False\<close>, a pipeline whose last step is the console renderer; when it
  cannot be imported (either import of the guarded block fails), both return the empty
  list for either value of \<^verbatim>\<open>as_json\<close>.
\<close>

theorem pipelines_end_in_renderer:
  "(import_structlog env \<and> import_RichTracebackFormatter env \<longrightarrow>
      default_structlog_processors env True \<noteq> []
      \<and> last (default_structlog_processors env True) = JSONRenderer default_json_serializer
      \<and> default_structlog_standard_lib_processors env True \<noteq> []
      \<and> last (default_structlog_standard_lib_processors env True) =
          JSONRenderer stdlib_json_serializer
      \<and> default_structlog_processors env False \<noteq> []
      \<and> last (default_structlog_processors env False) =
          ConsoleRenderer True (RichTracebackFormatter 1 False 80)
      \<and> default_structlog_standard_lib_processors env False \<noteq> []
      \<and> last (default_structlog_standard_lib_processors env False) =
          ConsoleRenderer True (RichTracebackFormatter 1 False 80))
   \<and> (\<not> (import_structlog env \<and> import_RichTracebackFormatter env) \<longrightarrow>
      default_structlog_processors env as_json = []
      \<and> default_structlog_standard_lib_processors env as_json = [])"
  by (simp add: default_structlog_processors_def default_structlog_standard_lib_processors_def)

theorem pipelines_end_in_renderer_witness:
  "import_structlog env_full \<and> import_RichTracebackFormatter env_full
   \<and> last (default_structlog_processors env_full True) = JSONRenderer default_json_serializer
   \<and> last (default_structlog_standard_lib_processors env_full False) =
          ConsoleRenderer True (RichTracebackFormatter 1 False 80)
   \<and> \<not> import_structlog env_plain
   \<and> default_structlog_processors env_plain True = []
   \<and> default_structlog_standard_lib_processors env_plain False = []"
  using pipelines_end_in_renderer [of env_full True] pipelines_end_in_renderer [of env_plain True]
    pipelines_end_in_renderer [of env_plain False]
  by (simp add: env_full_def env_plain_def)

section \<open>The search for \<open>picologging\<close> in the printed bytes\<close>

lemma hexdigit_cases: "hexdigit n \<in> set ''0123456789abcdef''"
  unfolding hexdigit_def by (rule nth_mem) simp

lemma hexdigit_not_p: "hexdigit n \<noteq> CHR ''p''"
  using hexdigit_cases [of n] by auto

text \<open>A byte is printed as itself, or as a backslash sequence that has no \<open>p\<close> in it.\<close>

lemma bytes_repr_char_shape:
  assumes "q \<noteq> CHR ''p''"
  shows "bytes_repr_char q c = [c] \<or> (\<exists>t. bytes_repr_char q c = backslash # t \<and> CHR ''p'' \<notin> set t)"
  using assms
  by (simp add: bytes_repr_char_def backslash_def hexdigit_not_p hexdigit_not_p [symmetric])

lemma bytes_repr_char_plain:
  "\<forall>c \<in> set ''picologging''. bytes_repr_char (CHR 0x27) c = [c] \<and> bytes_repr_char (CHR 0x22) c = [c]"
  by (simp add: bytes_repr_char_def backslash_def)

lemma sublist_skip:
  assumes "x \<notin> set e"
  shows "sublist (x # w) (e @ r) \<longleftrightarrow> sublist (x # w) r"
  using assms
proof (induction e)
  case Nil
  show ?case by simp
next
  case (Cons a e)
  then have "\<not> prefix (x # w) (a # e @ r)" by auto
  with Cons show ?case by (simp add: sublist_Cons_right)
qed

lemma prefix_repr:
  assumes "prefix w (concat (map (bytes_repr_char q) bs) @ [q])"
    and "backslash \<notin> set w" and "q \<notin> set w" and "q \<noteq> CHR ''p''"
  shows "prefix w bs"
  using assms
proof (induction bs arbitrary: w)
  case Nil
  then show ?case by (cases w) auto
next
  case (Cons b bs)
  show ?case
  proof (cases w)
    case Nil
    then show ?thesis by simp
  next
    case w: (Cons c w')
    from bytes_repr_char_shape [OF Cons.prems(4), of b] show ?thesis
    proof
      assume plain: "bytes_repr_char q b = [b]"
      with Cons.prems(1) w have "c = b" "prefix w' (concat (map (bytes_repr_char q) bs) @ [q])"
        by auto
      moreover have "backslash \<notin> set w'" "q \<notin> set w'"
        using Cons.prems(2,3) w by auto
      ultimately show ?thesis using Cons.IH [of w'] Cons.prems(4) w by simp
    next
      assume "\<exists>t. bytes_repr_char q b = backslash # t \<and> CHR ''p'' \<notin> set t"
      then obtain t where "bytes_repr_char q b = backslash # t" by blast
      with Cons.prems(1,2) w show ?thesis by auto
    qed
  qed
qed

lemma sublist_repr:
  assumes "sublist (CHR ''p'' # w) (concat (map (bytes_repr_char q) bs) @ [q])"
    and "backslash \<notin> set (CHR ''p'' # w)" and "q \<notin> set (CHR ''p'' # w)"
  shows "sublist (CHR ''p'' # w) bs"
  using assms(1)
proof (induction bs)
  case Nil
  with assms(3) show ?case by (auto simp add: sublist_Cons_right)
next
  case (Cons b bs)
  have qp: "q \<noteq> CHR ''p''" using assms(3) by auto
  let ?rest = "concat (map (bytes_repr_char q) bs) @ [q]"
  from bytes_repr_char_shape [OF qp, of b] show ?case
  proof
    assume plain: "bytes_repr_char q b = [b]"
    with Cons.prems have "prefix (CHR ''p'' # w) (b # ?rest) \<or> sublist (CHR ''p'' # w) ?rest"
      by (simp add: sublist_Cons_right)
    then show ?thesis
    proof
      assume "prefix (CHR ''p'' # w) (b # ?rest)"
      then have "prefix (CHR ''p'' # w) (concat (map (bytes_repr_char q) (b # bs)) @ [q])"
        using plain by simp
      then have "prefix (CHR ''p'' # w) (b # bs)"
        using assms(2,3) qp by (rule prefix_repr)
      then show ?thesis by (rule prefix_imp_sublist)
    next
      assume "sublist (CHR ''p'' # w) ?rest"
      then have "sublist (CHR ''p'' # w) bs" by (rule Cons.IH)
      then show ?thesis by (simp add: sublist_Cons_right)
    qed
  next
    assume "\<exists>t. bytes_repr_char q b = backslash # t \<and> CHR ''p'' \<notin> set t"
    then obtain t where t: "bytes_repr_char q b = backslash # t" "CHR ''p'' \<notin> set t" by blast
    have "CHR ''p'' \<notin> set (backslash # t)" using t(2) by (simp add: backslash_def)
    then have "sublist (CHR ''p'' # w) ((backslash # t) @ ?rest) \<longleftrightarrow> sublist (CHR ''p'' # w) ?rest"
      by (rule sublist_skip)
    with Cons.prems t(1) have "sublist (CHR ''p'' # w) ?rest" by simp
    then have "sublist (CHR ''p'' # w) bs" by (rule Cons.IH)
    then show ?thesis by (simp add: sublist_Cons_right)
  qed
qed

lemma concat_repr_plain:
  assumes "\<forall>c \<in> set w. bytes_repr_char q c = [c]"
  shows "concat (map (bytes_repr_char q) w) = w"
  using assms by (induction w) auto

lemma sublist_concat_map_embed:
  assumes "concat (map f w) = w"
  shows "sublist w (pre @ (concat (map f (ps @ w @ ss)) @ post))"
proof -
  have "pre @ (concat (map f (ps @ w @ ss)) @ post) =
        (pre @ concat (map f ps)) @ w @ (concat (map f ss) @ post)"
    using assms by simp
  then show ?thesis by (simp only: sublist_appendI)
qed

lemma picologging_in_str_bytes:
  "sublist ''picologging'' (py_str_bytes bs) \<longleftrightarrow> sublist ''picologging'' bs"
proof -
  define q where "q = (if CHR 0x27 \<in> set bs \<and> CHR 0x22 \<notin> set bs then CHR 0x22 else CHR 0x27)"
  have q: "q = CHR 0x27 \<or> q = CHR 0x22" by (simp add: q_def)
  have repr: "py_str_bytes bs = [CHR ''b'', q] @ (concat (map (bytes_repr_char q) bs) @ [q])"
    by (simp add: py_str_bytes_def q_def Let_def)
  have w1: "backslash \<notin> set ''picologging''" by (simp add: backslash_def)
  have w2: "q \<notin> set ''picologging''" using q by auto
  have w3: "CHR ''p'' \<notin> set [CHR ''b'', q]" using q by auto
  show ?thesis
  proof
    assume "sublist ''picologging'' (py_str_bytes bs)"
    then have "sublist ''picologging'' (concat (map (bytes_repr_char q) bs) @ [q])"
      unfolding repr using sublist_skip [OF w3] by simp
    then show "sublist ''picologging'' bs"
      using w1 w2 by (rule sublist_repr)
  next
    assume "sublist ''picologging'' bs"
    then obtain ps ss where bs: "bs = ps @ ''picologging'' @ ss"
      by (auto simp add: sublist_def)
    have "\<forall>c \<in> set ''picologging''. bytes_repr_char q c = [c]"
      using q bytes_repr_char_plain by blast
    then have c: "concat (map (bytes_repr_char q) ''picologging'') = ''picologging''"
      by (rule concat_repr_plain)
    show "sublist ''picologging'' (py_str_bytes bs)"
      by (subst repr, subst bs) (rule sublist_concat_map_embed [OF c])
  qed
qed

section \<open>Defaulting\<close>

lemma get_default_handlers_queue_listener:
  "\<exists>v. map_of (get_default_handlers env) ''queue_listener'' = Some v"
  by (simp add: get_default_handlers_def default_handlers_def default_picologging_handlers_def)

lemma get_default_handlers_contains:
  "dict_contains ''queue_listener'' (get_default_handlers env)"
  by (simp add: dict_contains_def get_default_handlers_def default_handlers_def
      default_picologging_handlers_def)

lemma dict_contains_setitem: "dict_contains k (dict_setitem k v d)"
  by (simp add: dict_contains_def dict_setitem_def AList.dom_update)

lemma post_init_handlers_contains:
  "dict_contains ''queue_listener'' (handlers (LoggingConfig_post_init env self))"
  by (simp add: LoggingConfig_post_init_def Let_def dict_contains_setitem)

lemma post_init_loggers_contains:
  "dict_contains ''litestar'' (loggers (LoggingConfig_post_init env self))"
  by (simp add: LoggingConfig_post_init_def Let_def dict_contains_setitem)

lemma post_init_handler_present:
  "log_exceptions self \<noteq> Never \<Longrightarrow>
     exception_logging_handler (LoggingConfig_post_init env self) \<noteq> None"
  by (auto simp add: LoggingConfig_post_init_def Let_def)

lemma post_init_keeps_present_handlers:
  "dict_contains ''queue_listener'' (handlers self) \<Longrightarrow>
     handlers (LoggingConfig_post_init env self) = handlers self"
  by (simp add: LoggingConfig_post_init_def Let_def)

lemma post_init_other_fields:
  "configure_root_logger (LoggingConfig_post_init env self) = configure_root_logger self"
  "root (LoggingConfig_post_init env self) = root self"
  "incremental (LoggingConfig_post_init env self) = incremental self"
  "log_exceptions (LoggingConfig_post_init env self) = log_exceptions self"
  by (simp_all add: LoggingConfig_post_init_def Let_def)

lemma struct_post_init_keeps_when_available:
  "import_structlog env \<Longrightarrow> standard_lib_logging_config self = Some c \<Longrightarrow>
   standard_lib_logging_config (StructLoggingConfig_post_init env self) = Some c"
  by (simp add: StructLoggingConfig_post_init_def Let_def)

lemma struct_post_init_builds_when_none:
  "import_structlog env \<Longrightarrow> standard_lib_logging_config self = None \<Longrightarrow>
   standard_lib_logging_config (StructLoggingConfig_post_init env self) =
     Some (LoggingConfig_post_init env
             ((LoggingConfig_defaults env)\<lparr>formatters :=
                structlog_formatters env (\<not> stderr_isatty env \<and> pretty_print_tty self)\<rparr>))"
  by (simp add: StructLoggingConfig_post_init_def Let_def)

lemma struct_post_init_overwrites_when_unavailable:
  "\<not> import_structlog env \<Longrightarrow>
   standard_lib_logging_config (StructLoggingConfig_post_init env self) =
     Some (LoggingConfig_post_init env (LoggingConfig_defaults env))"
  by (simp add: StructLoggingConfig_post_init_def Let_def)

text \<open>
  Claim C3. During construction of \<^verbatim>\<open>StructLoggingConfig\<close> a default wrapped
  configuration is built only when none was supplied; a supplied one is left as it is,
  whether or not the structured backend can be imported. The code keeps it when the
  import succeeds (\<open>struct_post_init_keeps_when_available\<close>); in the \<^verbatim>\<open>except ImportError\<close>
  branch the assignment has no \<^verbatim>\<open>is None\<close> guard, and a supplied configuration with
  \<^verbatim>\<open>incremental=True\<close> is replaced by the default one.
\<close>

theorem wrapped_config_replaced_without_structlog:
  "standard_lib_logging_config
     (StructLoggingConfig_post_init env_plain
        (StructLoggingConfig_defaults\<lparr>standard_lib_logging_config := Some incremental_config\<rparr>)) =
     Some (LoggingConfig_post_init env_plain (LoggingConfig_defaults env_plain))
   \<and> incremental incremental_config = True
   \<and> incremental (LoggingConfig_post_init env_plain (LoggingConfig_defaults env_plain)) = False
   \<and> \<not> import_structlog env_plain"
  by (simp add: struct_post_init_overwrites_when_unavailable post_init_other_fields
      incremental_config_def LoggingConfig_defaults_def env_plain_def)

text \<open>
  Claim C4. With \<^verbatim>\<open>log_exceptions = "never"\<close> the handler attribute is \<^verbatim>\<open>None\<close> after
  \<^verbatim>\<open>__post_init__\<close>, for both configuration classes. Not when the application passes a
  handler of its own: \<^verbatim>\<open>__post_init__\<close> only ever fills the attribute in, so the handler
  passed in is still there.
\<close>

theorem never_policy_keeps_supplied_handler:
  "exception_logging_handler
     (LoggingConfig_post_init env_plain
        ((LoggingConfig_defaults env_plain)
           \<lparr>log_exceptions := Never, exception_logging_handler := Some (CustomHandler ''my_handler'')\<rparr>))
     = Some (CustomHandler ''my_handler'')
   \<and> exception_logging_handler
     (StructLoggingConfig_post_init env_plain
        (StructLoggingConfig_defaults
           \<lparr>log_exceptions := Never, exception_logging_handler := Some (CustomHandler ''my_handler'')\<rparr>))
     = Some (CustomHandler ''my_handler'')"
  by (simp add: LoggingConfig_post_init_def StructLoggingConfig_post_init_def Let_def)

text \<open>
  Claim C4, as the code has it: with \<^verbatim>\<open>log_exceptions = "never"\<close>, \<^verbatim>\<open>__post_init__\<close> of
  either class leaves the handler attribute as it was passed in; it is \<^verbatim>\<open>None\<close>
  whenever no handler was passed.
\<close>

theorem never_policy_leaves_handler_as_supplied:
  assumes "log_exceptions (self :: LoggingConfig) = Never"
    and "log_exceptions (sself :: StructLoggingConfig) = Never"
  shows "exception_logging_handler (LoggingConfig_post_init env self) = exception_logging_handler self
    \<and> exception_logging_handler (StructLoggingConfig_post_init env sself) =
        exception_logging_handler sself"
  using assms by (simp add: LoggingConfig_post_init_def StructLoggingConfig_post_init_def Let_def)

theorem never_policy_leaves_handler_as_supplied_witness:
  "log_exceptions ((LoggingConfig_defaults env_full)\<lparr>log_exceptions := Never\<rparr>) = Never
   \<and> log_exceptions (StructLoggingConfig_defaults\<lparr>log_exceptions := Never\<rparr>) = Never
   \<and> exception_logging_handler
       (LoggingConfig_post_init env_full ((LoggingConfig_defaults env_full)\<lparr>log_exceptions := Never\<rparr>))
       = None
   \<and> exception_logging_handler
       (StructLoggingConfig_post_init env_full (StructLoggingConfig_defaults\<lparr>log_exceptions := Never\<rparr>))
       = None"
  using never_policy_leaves_handler_as_supplied
    [of "(LoggingConfig_defaults env_full)\<lparr>log_exceptions := Never\<rparr>"
        "StructLoggingConfig_defaults\<lparr>log_exceptions := Never\<rparr>" env_full]
  by (simp add: LoggingConfig_defaults_def StructLoggingConfig_defaults_def)

section \<open>The configure step\<close>

lemma alist_delete_filter: "AList.delete k d = [kv \<leftarrow> d. fst kv \<noteq> k]"
  by (induction d) auto

lemma map_of_filter_distinct:
  assumes "distinct (map fst d)" and "(k, v) \<in> set d" and "P (k, v)"
  shows "map_of (filter P d) k = Some v"
proof -
  have "distinct (map fst (filter P d))"
    using assms(1) by (rule distinct_map_filter)
  moreover have "(k, v) \<in> set (filter P d)"
    using assms(2,3) by simp
  ultimately show ?thesis by (rule map_of_is_SomeI)
qed

lemma dict_contains_filter:
  "dict_contains k (filter P d) \<longleftrightarrow> (\<exists>v. (k, v) \<in> set d \<and> P (k, v))"
  by (force simp add: dict_contains_def image_iff)

lemma asdict_distinct: "distinct (map fst (LoggingConfig_asdict self))"
  by (simp add: LoggingConfig_asdict_def)

lemma asdict_root_mem: "(''root'', PDict (root self)) \<in> set (LoggingConfig_asdict self)"
  by (simp add: LoggingConfig_asdict_def)

lemma asdict_incremental_mem:
  "(''incremental'', PBool (incremental self)) \<in> set (LoggingConfig_asdict self)"
  by (simp add: LoggingConfig_asdict_def)

lemma asdict_handlers_mem:
  "(''handlers'', dict_of_dicts (handlers self)) \<in> set (LoggingConfig_asdict self)"
  by (simp add: LoggingConfig_asdict_def)

lemma asdict_loggers_mem:
  "(''loggers'', dict_of_dicts (loggers self)) \<in> set (LoggingConfig_asdict self)"
  by (simp add: LoggingConfig_asdict_def)

text \<open>\<^verbatim>\<open>values.pop("root")\<close> finds its key: \<^verbatim>\<open>root\<close> is never \<^verbatim>\<open>None\<close> and never filtered out.\<close>

lemma pop_root_compiled:
  assumes "''root'' \<notin> set ks"
  shows "dict_pop ''root'' [kv \<leftarrow> LoggingConfig_asdict self. snd kv \<noteq> PNone \<and> fst kv \<notin> set ks] =
      Inr [kv \<leftarrow> LoggingConfig_asdict self. (snd kv \<noteq> PNone \<and> fst kv \<notin> set ks) \<and> fst kv \<noteq> ''root'']"
proof -
  have "dict_contains ''root'' [kv \<leftarrow> LoggingConfig_asdict self. snd kv \<noteq> PNone \<and> fst kv \<notin> set ks]"
    unfolding dict_contains_filter using asdict_root_mem assms by auto
  then show ?thesis
    by (simp only: dict_pop_def alist_delete_filter filter_filter if_True conj_commute)
qed

text \<open>The result of the configure step once the handlers are encoded, branch by branch.\<close>

lemma configure_backend:
  assumes "encode_json (dict_of_dicts (handlers self)) = Inr encoded"
  shows "LoggingConfig_configure encode_json env self =
     (if sublist ''picologging'' (py_str_bytes encoded) then
        (if import_picologging env then
           Inr (Picologging,
             [kv \<leftarrow> LoggingConfig_asdict self.
               (snd kv \<noteq> PNone \<and> fst kv \<notin> set [''incremental'', ''configure_root_logger''])
               \<and> (configure_root_logger self \<or> fst kv \<noteq> ''root'')])
         else Inl (MissingDependencyException ''picologging''))
      else
        Inr (Logging,
             [kv \<leftarrow> LoggingConfig_asdict self.
               (snd kv \<noteq> PNone \<and> fst kv \<notin> set [''configure_root_logger''])
               \<and> (configure_root_logger self \<or> fst kv \<noteq> ''root'')]))"
proof -
  have p: "dict_pop ''root'' [kv \<leftarrow> LoggingConfig_asdict self.
              snd kv \<noteq> PNone \<and> fst kv \<notin> set [''incremental'', ''configure_root_logger'']] =
           Inr [kv \<leftarrow> LoggingConfig_asdict self.
              (snd kv \<noteq> PNone \<and> fst kv \<notin> set [''incremental'', ''configure_root_logger''])
              \<and> fst kv \<noteq> ''root'']"
    by (rule pop_root_compiled) simp
  have q: "dict_pop ''root'' [kv \<leftarrow> LoggingConfig_asdict self.
              snd kv \<noteq> PNone \<and> fst kv \<notin> set [''configure_root_logger'']] =
           Inr [kv \<leftarrow> LoggingConfig_asdict self.
              (snd kv \<noteq> PNone \<and> fst kv \<notin> set [''configure_root_logger''])
              \<and> fst kv \<noteq> ''root'']"
    by (rule pop_root_compiled) simp
  consider (pico) "sublist ''picologging'' (py_str_bytes encoded)" "import_picologging env"
    | (missing) "sublist ''picologging'' (py_str_bytes encoded)" "\<not> import_picologging env"
    | (std) "\<not> sublist ''picologging'' (py_str_bytes encoded)"
    by blast
  then show ?thesis
  proof cases
    case pico
    show ?thesis
    proof (cases "configure_root_logger self")
      case True
      with pico show ?thesis
        unfolding LoggingConfig_configure_def assms
        by (simp only: sum.case prod.case if_True if_False not_True_eq_False simp_thms)
    next
      case False
      with pico show ?thesis
        unfolding LoggingConfig_configure_def assms
        by (simp only: sum.case prod.case p if_True if_False not_False_eq_True simp_thms)
    qed
  next
    case missing
    then show ?thesis
      unfolding LoggingConfig_configure_def assms
      by (simp only: sum.case if_True if_False)
  next
    case std
    show ?thesis
    proof (cases "configure_root_logger self")
      case True
      with std show ?thesis
        unfolding LoggingConfig_configure_def assms
        by (simp only: sum.case prod.case if_True if_False not_True_eq_False simp_thms)
    next
      case False
      with std show ?thesis
        unfolding LoggingConfig_configure_def assms
        by (simp only: sum.case prod.case q if_True if_False not_False_eq_True simp_thms)
    qed
  qed
qed

lemma configure_Inr_encoded:
  assumes "LoggingConfig_configure encode_json env self = Inr r"
  shows "\<exists>encoded. encode_json (dict_of_dicts (handlers self)) = Inr encoded"
proof (cases "encode_json (dict_of_dicts (handlers self))")
  case (Inl e)
  then have "LoggingConfig_configure encode_json env self = Inl e"
    by (simp add: LoggingConfig_configure_def)
  with assms show ?thesis by simp
next
  case (Inr encoded)
  then show ?thesis by blast
qed

text \<open>Whatever the backend, the mapping passed on is a comprehension over \<^verbatim>\<open>asdict(self)\<close>.\<close>

lemma configure_values:
  assumes "LoggingConfig_configure encode_json env self = Inr (backend, values)"
  shows "values =
     [kv \<leftarrow> LoggingConfig_asdict self.
        (snd kv \<noteq> PNone
         \<and> fst kv \<notin> set (if backend = Picologging
                             then [''incremental'', ''configure_root_logger'']
                             else [''configure_root_logger'']))
        \<and> (configure_root_logger self \<or> fst kv \<noteq> ''root'')]"
proof -
  from configure_Inr_encoded [OF assms] obtain encoded
    where e: "encode_json (dict_of_dicts (handlers self)) = Inr encoded" by blast
  note b = configure_backend [where encode_json = encode_json and self = self and env = env, OF e]
  show ?thesis
    using assms unfolding b
    by (simp split: if_split_asm)
qed

lemma compiled_handlers_loggers:
  assumes "LoggingConfig_configure encode_json env self = Inr (backend, values)"
  shows "map_of values ''handlers'' = Some (dict_of_dicts (handlers self))"
    and "map_of values ''loggers'' = Some (dict_of_dicts (loggers self))"
proof -
  note v = configure_values [OF assms]
  show "map_of values ''handlers'' = Some (dict_of_dicts (handlers self))"
    by (subst v)
       (simp add: map_of_filter_distinct [OF asdict_distinct asdict_handlers_mem] dict_of_dicts_def)
  show "map_of values ''loggers'' = Some (dict_of_dicts (loggers self))"
    by (subst v)
       (simp add: map_of_filter_distinct [OF asdict_distinct asdict_loggers_mem] dict_of_dicts_def)
qed

section \<open>Running the configure step with the JSON encoder\<close>

lemmas json_eval =
  dict_of_dicts_def json_string_def json_escape_char_def backslash_def sublist_code

lemma enc_default_handlers:
  "\<exists>e. json_value (dict_of_dicts (default_handlers env)) = Inr e \<and> \<not> sublist ''picologging'' e"
  by (cases "version_at_least_3_12 env") (simp_all add: default_handlers_def json_eval)

lemma enc_pico_handlers:
  "\<exists>e. json_value (dict_of_dicts default_picologging_handlers) = Inr e \<and> sublist ''picologging'' e"
  by (simp add: default_picologging_handlers_def json_eval)

lemma enc_file_config:
  "\<exists>e. json_value (dict_of_dicts (handlers file_config)) = Inr e \<and> sublist ''picologging'' e"
  by (simp add: file_config_def file_handlers_def LoggingConfig_post_init_def
      LoggingConfig_defaults_def Let_def dict_contains_def dict_setitem_def
      get_default_handlers_def default_handlers_def env_plain_def json_eval)

text \<open>The branch taken, read off the encoded bytes themselves rather than their \<^verbatim>\<open>str\<close>.\<close>

lemma configure_by_encoding:
  assumes "encode_json (dict_of_dicts (handlers self)) = Inr encoded"
  shows "sublist ''picologging'' encoded \<Longrightarrow> import_picologging env \<Longrightarrow>
           \<exists>values. LoggingConfig_configure encode_json env self = Inr (Picologging, values)"
    and "sublist ''picologging'' encoded \<Longrightarrow> \<not> import_picologging env \<Longrightarrow>
           LoggingConfig_configure encode_json env self =
             Inl (MissingDependencyException ''picologging'')"
    and "\<not> sublist ''picologging'' encoded \<Longrightarrow>
           \<exists>values. LoggingConfig_configure encode_json env self = Inr (Logging, values)"
  unfolding configure_backend [where encode_json = encode_json and self = self and env = env, OF assms]
    picologging_in_str_bytes
  by simp_all

text \<open>
  A configuration whose handlers are the default table compiles whenever the import
  agrees with \<^verbatim>\<open>find_spec\<close>; the backend follows the table.
\<close>

lemma default_handlers_configure:
  assumes "handlers self = get_default_handlers env"
  shows "find_spec_picologging env \<Longrightarrow> import_picologging env \<Longrightarrow>
           \<exists>values. LoggingConfig_configure json_value env self = Inr (Picologging, values)"
    and "find_spec_picologging env \<Longrightarrow> \<not> import_picologging env \<Longrightarrow>
           LoggingConfig_configure json_value env self = Inl (MissingDependencyException ''picologging'')"
    and "\<not> find_spec_picologging env \<Longrightarrow>
           \<exists>values. LoggingConfig_configure json_value env self = Inr (Logging, values)"
proof -
  have pico: "\<exists>e. json_value (dict_of_dicts (handlers self)) = Inr e \<and> sublist ''picologging'' e"
    if "find_spec_picologging env"
    using that assms enc_pico_handlers by (simp add: get_default_handlers_def)
  have std: "\<exists>e. json_value (dict_of_dicts (handlers self)) = Inr e \<and> \<not> sublist ''picologging'' e"
    if "\<not> find_spec_picologging env"
    using that assms enc_default_handlers [of env] by (simp add: get_default_handlers_def)
  show "find_spec_picologging env \<Longrightarrow> import_picologging env \<Longrightarrow>
           \<exists>values. LoggingConfig_configure json_value env self = Inr (Picologging, values)"
    using pico configure_by_encoding(1)[where encode_json = json_value and self = self] by blast
  show "find_spec_picologging env \<Longrightarrow> \<not> import_picologging env \<Longrightarrow>
           LoggingConfig_configure json_value env self = Inl (MissingDependencyException ''picologging'')"
    using pico configure_by_encoding(2)[where encode_json = json_value and self = self] by blast
  show "\<not> find_spec_picologging env \<Longrightarrow>
           \<exists>values. LoggingConfig_configure json_value env self = Inr (Logging, values)"
    using std configure_by_encoding(3)[where encode_json = json_value and self = self] by blast
qed

text \<open>
  Claim C6. The mapping compiled by \<^verbatim>\<open>LoggingConfig.configure\<close> has no \<^verbatim>\<open>None\<close>-valued
  field and no \<^verbatim>\<open>configure_root_logger\<close> key; with \<^verbatim>\<open>configure_root_logger\<close> false it has
  no \<^verbatim>\<open>root\<close> key, with it true the \<^verbatim>\<open>root\<close> entry is the one supplied; for the
  picologging backend \<^verbatim>\<open>incremental\<close> is dropped, for the standard one it is kept.
\<close>

theorem compiled_mapping_fields:
  assumes "LoggingConfig_configure encode_json env self = Inr (backend, values)"
  shows "(\<forall>kv \<in> set values. snd kv \<noteq> PNone)
    \<and> \<not> dict_contains ''configure_root_logger'' values
    \<and> (\<not> configure_root_logger self \<longrightarrow> \<not> dict_contains ''root'' values)
    \<and> (configure_root_logger self \<longrightarrow> map_of values ''root'' = Some (PDict (root self)))
    \<and> (backend = Picologging \<longrightarrow> \<not> dict_contains ''incremental'' values)
    \<and> (backend = Logging \<longrightarrow> map_of values ''incremental'' = Some (PBool (incremental self)))"
proof -
  note v = configure_values [OF assms]
  have 1: "\<forall>kv \<in> set values. snd kv \<noteq> PNone"
    by (subst v) simp
  have 2: "\<not> dict_contains ''configure_root_logger'' values"
    by (subst v) (simp add: dict_contains_filter)
  have 3: "\<not> configure_root_logger self \<longrightarrow> \<not> dict_contains ''root'' values"
    by (subst v) (simp add: dict_contains_filter)
  have 4: "configure_root_logger self \<longrightarrow> map_of values ''root'' = Some (PDict (root self))"
    by (subst v) (simp add: map_of_filter_distinct [OF asdict_distinct asdict_root_mem])
  have 5: "backend = Picologging \<longrightarrow> \<not> dict_contains ''incremental'' values"
    by (subst v) (simp add: dict_contains_filter)
  have 6: "backend = Logging \<longrightarrow> map_of values ''incremental'' = Some (PBool (incremental self))"
    by (subst v) (simp add: map_of_filter_distinct [OF asdict_distinct asdict_incremental_mem])
  from 1 2 3 4 5 6 show ?thesis by blast
qed

text \<open>
  Two runs with the JSON encoder: the root entry
  \<^verbatim>\<open>{"level": "WARNING", "handlers": ["queue_listener"]}\<close> with \<^verbatim>\<open>configure_root_logger\<close> left
  true, compiled for the standard backend, and \<^verbatim>\<open>configure_root_logger=False\<close> compiled
  for picologging.
\<close>

theorem compiled_mapping_fields_witness:
  "(\<exists>values. LoggingConfig_configure json_value env_plain warning_root_config = Inr (Logging, values)
     \<and> configure_root_logger warning_root_config
     \<and> PNone \<notin> snd ` set values
     \<and> \<not> dict_contains ''configure_root_logger'' values
     \<and> map_of values ''root'' = Some (PDict warning_root)
     \<and> map_of values ''incremental'' = Some (PBool False))
   \<and> (\<exists>values. LoggingConfig_configure json_value env_full no_root_config = Inr (Picologging, values)
     \<and> \<not> configure_root_logger no_root_config
     \<and> PNone \<notin> snd ` set values
     \<and> \<not> dict_contains ''configure_root_logger'' values
     \<and> \<not> dict_contains ''root'' values
     \<and> \<not> dict_contains ''incremental'' values)"
proof -
  have h: "handlers warning_root_config = get_default_handlers env_plain"
    by (simp add: warning_root_config_def LoggingConfig_defaults_def
        post_init_keeps_present_handlers get_default_handlers_contains)
  have f: "\<not> find_spec_picologging env_plain"
    by (simp add: env_plain_def)
  from default_handlers_configure(3)[OF h f] obtain vs
    where c: "LoggingConfig_configure json_value env_plain warning_root_config = Inr (Logging, vs)"
    by blast
  have r: "configure_root_logger warning_root_config" "root warning_root_config = warning_root"
    "incremental warning_root_config = False"
    by (simp_all add: warning_root_config_def post_init_other_fields LoggingConfig_defaults_def)
  have h': "handlers no_root_config = get_default_handlers env_full"
    by (simp add: no_root_config_def LoggingConfig_defaults_def
        post_init_keeps_present_handlers get_default_handlers_contains)
  have f': "find_spec_picologging env_full" "import_picologging env_full"
    by (simp_all add: env_full_def)
  from default_handlers_configure(1)[OF h' f'] obtain ws
    where d: "LoggingConfig_configure json_value env_full no_root_config = Inr (Picologging, ws)"
    by blast
  have r': "\<not> configure_root_logger no_root_config"
    by (simp add: no_root_config_def post_init_other_fields LoggingConfig_defaults_def)
  from compiled_mapping_fields [OF c] c r have 1:
    "\<exists>values. LoggingConfig_configure json_value env_plain warning_root_config = Inr (Logging, values)
     \<and> configure_root_logger warning_root_config
     \<and> PNone \<notin> snd ` set values
     \<and> \<not> dict_contains ''configure_root_logger'' values
     \<and> map_of values ''root'' = Some (PDict warning_root)
     \<and> map_of values ''incremental'' = Some (PBool False)"
    by auto
  from compiled_mapping_fields [OF d] d r' have 2:
    "\<exists>values. LoggingConfig_configure json_value env_full no_root_config = Inr (Picologging, values)
     \<and> \<not> configure_root_logger no_root_config
     \<and> PNone \<notin> snd ` set values
     \<and> \<not> dict_contains ''configure_root_logger'' values
     \<and> \<not> dict_contains ''root'' values
     \<and> \<not> dict_contains ''incremental'' values"
    by auto
  from 1 2 show ?thesis by blast
qed

text \<open>
  Claim C5. After \<^verbatim>\<open>LoggingConfig.__post_init__\<close> the handlers contain
  \<^verbatim>\<open>"queue_listener"\<close> and the loggers contain \<^verbatim>\<open>"litestar"\<close>; the mapping compiled from
  such a configuration carries both tables, and a configuration built without explicit
  handlers does compile; the handler attribute is set whenever \<^verbatim>\<open>log_exceptions\<close> is not
  \<^verbatim>\<open>"never"\<close>.
\<close>

theorem post_init_entries_present:
  "dict_contains ''queue_listener'' (handlers (LoggingConfig_post_init env self))
   \<and> dict_contains ''litestar'' (loggers (LoggingConfig_post_init env self))
   \<and> (log_exceptions self \<noteq> Never \<longrightarrow>
        exception_logging_handler (LoggingConfig_post_init env self) \<noteq> None)
   \<and> (LoggingConfig_configure encode_json env (LoggingConfig_post_init env self) =
          Inr (backend, values) \<longrightarrow>
        (\<exists>hs ls. map_of values ''handlers'' = Some (dict_of_dicts hs)
           \<and> dict_contains ''queue_listener'' hs
           \<and> map_of values ''loggers'' = Some (dict_of_dicts ls)
           \<and> dict_contains ''litestar'' ls))
   \<and> (handlers self = get_default_handlers env
        \<and> (find_spec_picologging env \<longrightarrow> import_picologging env) \<longrightarrow>
        (\<exists>b vs. LoggingConfig_configure json_value env (LoggingConfig_post_init env self) =
           Inr (b, vs)))"
proof -
  let ?post = "LoggingConfig_post_init env self"
  have 1: "dict_contains ''queue_listener'' (handlers ?post)"
    by (rule post_init_handlers_contains)
  have 2: "dict_contains ''litestar'' (loggers ?post)"
    by (rule post_init_loggers_contains)
  have 3: "log_exceptions self \<noteq> Never \<longrightarrow> exception_logging_handler ?post \<noteq> None"
    by (simp add: post_init_handler_present)
  have 4: "\<exists>hs ls. map_of values ''handlers'' = Some (dict_of_dicts hs)
           \<and> dict_contains ''queue_listener'' hs
           \<and> map_of values ''loggers'' = Some (dict_of_dicts ls)
           \<and> dict_contains ''litestar'' ls"
    if c: "LoggingConfig_configure encode_json env ?post = Inr (backend, values)"
    using compiled_handlers_loggers [OF c] 1 2 by blast
  have 5: "\<exists>b vs. LoggingConfig_configure json_value env ?post = Inr (b, vs)"
    if d: "handlers self = get_default_handlers env"
      and i: "find_spec_picologging env \<longrightarrow> import_picologging env"
  proof -
    have h: "handlers ?post = get_default_handlers env"
      using d get_default_handlers_contains [of env]
      by (simp add: post_init_keeps_present_handlers)
    show ?thesis
      using default_handlers_configure(1)[OF h] default_handlers_configure(3)[OF h] i
      by (cases "find_spec_picologging env") blast+
  qed
  from 1 2 3 4 5 show ?thesis by blast
qed

theorem post_init_entries_present_witness:
  "log_exceptions (LoggingConfig_defaults env_plain) \<noteq> Never
   \<and> exception_logging_handler (LoggingConfig_post_init env_plain (LoggingConfig_defaults env_plain))
       \<noteq> None
   \<and> handlers (LoggingConfig_defaults env_plain) = get_default_handlers env_plain
   \<and> \<not> find_spec_picologging env_plain
   \<and> (\<exists>b vs. LoggingConfig_configure json_value env_plain
                 (LoggingConfig_post_init env_plain (LoggingConfig_defaults env_plain)) = Inr (b, vs)
        \<and> (\<exists>hs ls. map_of vs ''handlers'' = Some (dict_of_dicts hs)
           \<and> dict_contains ''queue_listener'' hs
           \<and> map_of vs ''loggers'' = Some (dict_of_dicts ls)
           \<and> dict_contains ''litestar'' ls))"
proof -
  let ?self = "LoggingConfig_defaults env_plain"
  have a: "log_exceptions ?self \<noteq> Never" "handlers ?self = get_default_handlers env_plain"
    "\<not> find_spec_picologging env_plain"
    by (simp_all add: LoggingConfig_defaults_def env_plain_def)
  from a post_init_entries_present [of env_plain ?self json_value]
  obtain b vs where c: "LoggingConfig_configure json_value env_plain
       (LoggingConfig_post_init env_plain ?self) = Inr (b, vs)"
    by blast
  from a c post_init_entries_present [of env_plain ?self json_value b vs]
  show ?thesis by blast
qed

text \<open>
  Claim C10. The configure step takes the picologging branch exactly when
  \<open>picologging\<close> occurs somewhere in the JSON encoding of the handlers, whatever
  holds the text and whether or not the module can be imported: if it cannot, the step
  raises \<^verbatim>\<open>MissingDependencyException\<close> and does not fall back; otherwise the standard
  \<^verbatim>\<open>logging\<close> module is used.
\<close>

theorem picologging_selected_by_substring:
  assumes "encode_json (dict_of_dicts (handlers self)) = Inr encoded"
  shows "(sublist ''picologging'' encoded \<longrightarrow>
            (import_picologging env \<longrightarrow>
               (\<exists>values. LoggingConfig_configure encode_json env self = Inr (Picologging, values)))
          \<and> (\<not> import_picologging env \<longrightarrow>
               LoggingConfig_configure encode_json env self =
                 Inl (MissingDependencyException ''picologging'')))
      \<and> (\<not> sublist ''picologging'' encoded \<longrightarrow>
            (\<exists>values. LoggingConfig_configure encode_json env self = Inr (Logging, values)))
      \<and> (\<forall>backend values. LoggingConfig_configure encode_json env self = Inr (backend, values) \<longrightarrow>
            (backend = Picologging \<longleftrightarrow> sublist ''picologging'' encoded))"
  unfolding configure_backend [where encode_json = encode_json and self = self and env = env, OF assms]
    picologging_in_str_bytes
  by simp

theorem picologging_selected_by_substring_witness:
  "(\<exists>encoded. json_value (dict_of_dicts (handlers file_config)) = Inr encoded
       \<and> sublist ''picologging'' encoded)
   \<and> \<not> import_picologging env_plain \<and> \<not> find_spec_picologging env_plain
   \<and> LoggingConfig_configure json_value env_plain file_config =
        Inl (MissingDependencyException ''picologging'')
   \<and> (\<exists>values. LoggingConfig_configure json_value env_full file_config = Inr (Picologging, values))
   \<and> (\<exists>encoded. json_value (dict_of_dicts (handlers warning_root_config)) = Inr encoded
       \<and> \<not> sublist ''picologging'' encoded)
   \<and> (\<exists>values. LoggingConfig_configure json_value env_full warning_root_config = Inr (Logging, values))"
proof -
  from enc_file_config obtain e
    where e: "json_value (dict_of_dicts (handlers file_config)) = Inr e" "sublist ''picologging'' e"
    by blast
  have h: "handlers warning_root_config = default_handlers env_plain"
    by (simp add: warning_root_config_def LoggingConfig_defaults_def
        post_init_keeps_present_handlers get_default_handlers_contains)
       (simp add: get_default_handlers_def env_plain_def)
  from enc_default_handlers [of env_plain] obtain d
    where d: "json_value (dict_of_dicts (handlers warning_root_config)) = Inr d"
      "\<not> sublist ''picologging'' d"
    unfolding h by blast
  have i: "\<not> import_picologging env_plain" "\<not> find_spec_picologging env_plain"
    "import_picologging env_full"
    by (simp_all add: env_plain_def env_full_def)
  from picologging_selected_by_substring
      [where encode_json = json_value and self = file_config and env = env_plain, OF e(1)]
    picologging_selected_by_substring
      [where encode_json = json_value and self = file_config and env = env_full, OF e(1)]
    picologging_selected_by_substring
      [where encode_json = json_value and self = warning_root_config and env = env_full, OF d(1)]
    e d i
  show ?thesis by blast
qed

end
